theory Spec2Isabelle
  imports Main "HOL-Library.Word"
begin

section \<open>Go error values\<close>

text \<open>
  A Go \<open>error\<close> is an interface value. The code under study looks at an error in four
  ways only, so an error is modelled by what these four observations give:
  \<^item> \<open>as_net_error\<close>: the type assertion \<open>err.(net.Error)\<close>; \<open>Some (timeout, temporary)\<close>
    holds the results of \<open>Timeout()\<close> and \<open>Temporary()\<close> when the assertion succeeds;
  \<^item> \<open>grpc_status\<close>: \<open>status.FromError(err)\<close>; \<open>Some c\<close> when it reports \<open>ok\<close> with code \<open>c\<close>;
  \<^item> \<open>Error\<close>: the message \<open>err.Error()\<close>, a byte string;
  \<^item> \<open>Unwrap\<close>: the error wrapped with \<open>%w\<close>, if any.
  A \<open>nil\<close> error is \<open>None\<close> of type \<open>go_error option\<close>.
\<close>

datatype grpc_code =
  OK | Canceled | Unknown | InvalidArgument | DeadlineExceeded | NotFound | AlreadyExists
  | PermissionDenied | ResourceExhausted | FailedPrecondition | Aborted | OutOfRange
  | Unimplemented | Internal | Unavailable | DataLoss | Unauthenticated

datatype go_error =
  GoError (as_net_error: "(bool \<times> bool) option") (grpc_status: "grpc_code option")
    (Error: string) (Unwrap: "go_error option")

text \<open>\<open>errors.New(s)\<close>, also what \<open>fmt.Errorf\<close> builds when the format has no \<open>%w\<close>.\<close>

definition errors_New :: "string \<Rightarrow> go_error" where
  "errors_New s = GoError None None s None"

text \<open>
  \<open>fmt.Errorf(prefix + "%w", err)\<close>: a \<open>*fmt.wrapError\<close>. It has the methods \<open>Error\<close> and
  \<open>Unwrap\<close> only, so it is no \<open>net.Error\<close>; \<open>status.FromError\<close> looks through the wrapping.
\<close>

definition fmt_Errorf_w :: "string \<Rightarrow> go_error \<Rightarrow> go_error" where
  "fmt_Errorf_w prefix err = GoError None (grpc_status err) (prefix @ Error err) (Some err)"

text \<open>\<open>context.DeadlineExceeded\<close>: its \<open>Timeout()\<close> and \<open>Temporary()\<close> both return true.\<close>

definition context_DeadlineExceeded :: go_error where
  "context_DeadlineExceeded =
     GoError (Some (True, True)) None ''context deadline exceeded'' None"

text \<open>The verb \<open>%d\<close> of \<open>fmt\<close> on an \<open>int\<close>.\<close>

definition digit_char :: "nat \<Rightarrow> char" where
  "digit_char d = ''0123456789'' ! d"

fun dec_nat :: "nat \<Rightarrow> string" where
  "dec_nat n = (if n < 10 then [digit_char n] else dec_nat (n div 10) @ [digit_char (n mod 10)])"

declare dec_nat.simps [simp del]

definition fmt_d :: "int \<Rightarrow> string" where
  "fmt_d i = (if i < 0 then CHR ''-'' # dec_nat (nat (- i)) else dec_nat (nat i))"

section \<open>The connection error classifier (runtime/connection\_manager.go)\<close>

definition connectionErrorPatterns :: "string list" where
  "connectionErrorPatterns =
     [''connection refused'',
      ''connection reset'',
      ''broken pipe'',
      ''EOF'',
      ''connection lost'',
      ''no such file or directory'',
      ''context deadline exceeded: unknown'']"

text \<open>
  The test of the loop body:
  \<open>len(errStr) > 0 && len(pattern) > 0 && len(errStr) >= len(pattern) &&
   errStr[len(errStr)-len(pattern):] == pattern\<close>.
\<close>

definition ends_with :: "string \<Rightarrow> string \<Rightarrow> bool" where
  "ends_with errStr pattern \<longleftrightarrow>
     length errStr > 0 \<and> length pattern > 0 \<and> length errStr \<ge> length pattern \<and>
     drop (length errStr - length pattern) errStr = pattern"

text \<open>The \<open>for _, pattern := range ...\<close> loop: it returns true at the first pattern that fits.\<close>

fun match_patterns :: "string \<Rightarrow> string list \<Rightarrow> bool" where
  "match_patterns errStr [] = False"
| "match_patterns errStr (pattern # rest) =
     (if ends_with errStr pattern then True else match_patterns errStr rest)"

definition isConnectionError :: "go_error option \<Rightarrow> bool" where
  "isConnectionError err =
     (case err of
        None \<Rightarrow> False
      | Some e \<Rightarrow>
          (case as_net_error e of
             Some (timeout, temporary) \<Rightarrow> timeout \<or> temporary
           | None \<Rightarrow>
               if (case grpc_status e of
                     Some Unavailable \<Rightarrow> True
                   | Some DeadlineExceeded \<Rightarrow> True
                   | Some Canceled \<Rightarrow> True
                   | _ \<Rightarrow> False)
               then True
               else match_patterns (Error e) connectionErrorPatterns))"

section \<open>The task ID translator (internal/vm/task\_translator.go)\<close>

record taskTranslator =
  externalToInternal :: "string \<rightharpoonup> string"
  internalToExternal :: "string \<rightharpoonup> string"

definition NewTaskTranslator :: taskTranslator where
  "NewTaskTranslator = \<lparr>externalToInternal = Map.empty, internalToExternal = Map.empty\<rparr>"

definition TranslateToInternal :: "taskTranslator \<Rightarrow> string \<Rightarrow> string" where
  "TranslateToInternal t externalID =
     (case externalToInternal t externalID of
        Some internalID \<Rightarrow> internalID
      | None \<Rightarrow> externalID)"

definition TranslateToExternal :: "taskTranslator \<Rightarrow> string \<Rightarrow> string" where
  "TranslateToExternal t internalID =
     (case internalToExternal t internalID of
        Some externalID \<Rightarrow> externalID
      | None \<Rightarrow> internalID)"

definition RegisterCloneMapping :: "taskTranslator \<Rightarrow> string \<Rightarrow> string \<Rightarrow> taskTranslator" where
  "RegisterCloneMapping t externalID internalID =
     t\<lparr>externalToInternal := (externalToInternal t)(externalID \<mapsto> internalID),
       internalToExternal := (internalToExternal t)(internalID \<mapsto> externalID)\<rparr>"

definition IsCloneTask :: "taskTranslator \<Rightarrow> string \<Rightarrow> bool" where
  "IsCloneTask t externalID \<longleftrightarrow> externalToInternal t externalID \<noteq> None"

definition GetCloneMappings :: "taskTranslator \<Rightarrow> (string \<rightharpoonup> string)" where
  "GetCloneMappings t = externalToInternal t"

text \<open>
  Mutual consistency of the two maps: an entry \<open>ext \<mapsto> itl\<close> in one direction exactly when
  the entry \<open>itl \<mapsto> ext\<close> is in the other.
\<close>

definition consistent :: "taskTranslator \<Rightarrow> bool" where
  "consistent t \<longleftrightarrow>
     (\<forall>ext itl. externalToInternal t ext = Some itl \<longleftrightarrow> internalToExternal t itl = Some ext)"

text \<open>
  A registration is free of conflict when neither ID is already mapped to another partner.
\<close>

definition conflict_free :: "taskTranslator \<Rightarrow> string \<Rightarrow> string \<Rightarrow> bool" where
  "conflict_free t externalID internalID \<longleftrightarrow>
     (externalToInternal t externalID = None \<or> externalToInternal t externalID = Some internalID) \<and>
     (internalToExternal t internalID = None \<or> internalToExternal t internalID = Some externalID)"

section \<open>The connection manager (runtime/connection\_manager.go)\<close>

text \<open>
  Durations (\<open>time.Duration\<close>) are integers of nanoseconds; the code only compares
  them and scales them by the factor. \<open>BackoffFactor\<close> is a
  \<open>float64\<close> in the source, where it occurs once, in
  \<open>time.Duration(float64(backoff) * cm.config.BackoffFactor)\<close>. The model keeps the factor
  as that map on durations, so that nothing is assumed about floating point rounding:
  the factor \<open>2.0\<close> is \<open>\<lambda>b. 2 * b\<close> on the durations whose double fits a duration.
  Go's \<open>int\<close> has 64 bits on the platforms this code runs on: \<open>MaxRetries\<close> and the
  loop counter \<open>attempt\<close> are 64-bit words, compared as signed numbers, and
  \<open>attempt + 1\<close> and \<open>MaxRetries + 1\<close> wrap around as they do in Go.
\<close>

record ConnectionConfig =
  MaxRetries :: "64 word"
  InitialBackoff :: int
  MaxBackoff :: int
  BackoffFactor :: "int \<Rightarrow> int"
  ConnectTimeout :: int

text \<open>
  The constant \<open>defaultVSockConnectTimeout\<close> is declared outside the files at hand and
  is a parameter here.
\<close>

definition DefaultConnectionConfig :: "int \<Rightarrow> ConnectionConfig" where
  "DefaultConnectionConfig defaultVSockConnectTimeout =
     \<lparr>MaxRetries = 3,
      InitialBackoff = 100 * 1000000,
      MaxBackoff = 5 * 1000000000,
      BackoffFactor = (\<lambda>b. 2 * b),
      ConnectTimeout = defaultVSockConnectTimeout\<rparr>"

text \<open>
  The manager without its logger and its lock. \<open>conn\<close> holds the handle that the dial
  returned, \<open>rpcClient\<close> the client built over that handle, and \<open>clients\<close> the address of
  the \<open>AgentClients\<close> bundle.
\<close>

record ConnectionManager =
  vsockPath :: string
  vsockPort :: "32 word"
  config :: ConnectionConfig
  conn :: "nat option"
  rpcClient :: "nat option"
  clients :: "nat option"
  connecting :: bool

definition NewConnectionManager ::
  "int \<Rightarrow> string \<Rightarrow> 32 word \<Rightarrow> ConnectionConfig option \<Rightarrow> ConnectionManager" where
  "NewConnectionManager defaultVSockConnectTimeout path port cfg =
     \<lparr>vsockPath = path,
      vsockPort = port,
      config = (case cfg of None \<Rightarrow> DefaultConnectionConfig defaultVSockConnectTimeout | Some c \<Rightarrow> c),
      conn = None,
      rpcClient = None,
      clients = None,
      connecting = False\<rparr>"

text \<open>
  What the manager does to the world outside it is counted in a record that every
  operation threads through: the number of \<open>vsock.DialContext\<close> calls made so far, the
  durations handed to \<open>time.After\<close> (oldest first), the number of \<open>AgentClients\<close> bundles
  allocated (the next bundle gets this number as its address, as Go's allocator gives
  every \<open>&AgentClients{...}\<close> an address of its own), the number of calls issued on
  the underlying clients and the number of \<open>MarkConnectionBroken\<close> calls made by wrappers.
\<close>

record world =
  dials :: nat
  timers :: "int list"
  allocs :: nat
  rpcs :: nat
  marks :: nat

text \<open>
  What the world answers: \<open>dial_result env n\<close> is the outcome of dial number \<open>n\<close> (an error
  or a connection handle), and \<open>ctx_done env n\<close> tells for the \<open>select\<close> number \<open>n\<close> whether
  \<open>ctx.Done()\<close> fires before the timer, with the value of \<open>ctx.Err()\<close>.
\<close>

record env =
  dial_result :: "nat \<Rightarrow> go_error + nat"
  ctx_done :: "nat \<Rightarrow> go_error option"

definition cleanup :: "ConnectionManager \<Rightarrow> ConnectionManager" where
  "cleanup cm =
     (let cm1 = (if rpcClient cm \<noteq> None then cm\<lparr>rpcClient := None\<rparr> else cm);
          cm2 = (if conn cm1 \<noteq> None then cm1\<lparr>conn := None\<rparr> else cm1)
      in cm2\<lparr>clients := None\<rparr>)"

definition connect ::
  "env \<Rightarrow> world \<Rightarrow> ConnectionManager \<Rightarrow> go_error option \<times> world \<times> ConnectionManager" where
  "connect env w cm =
     (case dial_result env (dials w) of
        Inl err \<Rightarrow>
          (Some (fmt_Errorf_w ''failed to dial VM over vsock: '' err),
           w\<lparr>dials := Suc (dials w)\<rparr>, cm)
      | Inr c \<Rightarrow>
          (None,
           w\<lparr>dials := Suc (dials w), allocs := Suc (allocs w)\<rparr>,
           cm\<lparr>conn := Some c, rpcClient := Some c, clients := Some (allocs w)\<rparr>))"

definition Connect ::
  "env \<Rightarrow> world \<Rightarrow> ConnectionManager \<Rightarrow> go_error option \<times> world \<times> ConnectionManager" where
  "Connect env w cm = (if clients cm \<noteq> None then (None, w, cm) else connect env w cm)"

text \<open>
  The head of the loop body, \<open>if attempt > 0 { ... }\<close>: the wait, which the context can
  cut short, and the new backoff. It returns the error of a cancelled context, the
  backoff of the next round and the world.
\<close>

definition backoff_wait ::
  "env \<Rightarrow> ConnectionConfig \<Rightarrow> 64 word \<Rightarrow> int \<Rightarrow> world \<Rightarrow> go_error option \<times> int \<times> world" where
  "backoff_wait env cfg attempt backoff w =
     (if word_sless 0 attempt then
        (case ctx_done env (length (timers w)) of
           Some e \<Rightarrow> (Some e, backoff, w\<lparr>timers := timers w @ [backoff]\<rparr>)
         | None \<Rightarrow>
             (let nextBackoff = BackoffFactor cfg backoff;
                  nextBackoff = (if nextBackoff > MaxBackoff cfg then MaxBackoff cfg else nextBackoff)
              in (None, nextBackoff, w\<lparr>timers := timers w @ [backoff]\<rparr>)))
      else (None, backoff, w))"

text \<open>
  \<open>for attempt := 0; attempt <= cm.config.MaxRetries; attempt++\<close> and the return after it.
  With \<open>MaxRetries\<close> the largest \<open>int\<close> the condition never fails, and the loop goes on
  for as long as the dials fail: the loop is a partial function, and \<open>None\<close> is the run
  that never returns.
\<close>

partial_function (option) reconnect_loop ::
  "env \<Rightarrow> 64 word \<Rightarrow> int \<Rightarrow> world \<Rightarrow> ConnectionManager \<Rightarrow>
   ((nat option \<times> go_error option) \<times> world \<times> ConnectionManager) option" where
  "reconnect_loop env attempt backoff w cm =
     (if word_sle attempt (MaxRetries (config cm)) then
        (case backoff_wait env (config cm) attempt backoff w of
           (Some e, backoff1, w1) \<Rightarrow> Some ((None, Some e), w1, cm)
         | (None, backoff1, w1) \<Rightarrow>
             (case connect env w1 cm of
                (None, w2, cm2) \<Rightarrow> Some ((clients cm2, None), w2, cm2)
              | (Some err, w2, cm2) \<Rightarrow>
                  reconnect_loop env (attempt + 1) backoff1 w2 (cleanup cm2)))
      else
        Some ((None,
               Some (errors_New (''failed to establish vsock connection after '' @
                       fmt_d (sint (MaxRetries (config cm) + 1)) @ '' attempts''))),
              w, cm))"

text \<open>
  The lock is left out: the model runs one caller at a time. In the branch taken when
  \<open>connecting\<close> is set, the caller releases the lock and sleeps for 50 ms; no other
  caller runs meanwhile here, so the manager it looks at afterwards is the same.
\<close>

definition reconnectIfNeeded ::
  "env \<Rightarrow> world \<Rightarrow> ConnectionManager \<Rightarrow>
   ((nat option \<times> go_error option) \<times> world \<times> ConnectionManager) option" where
  "reconnectIfNeeded env w cm =
     (if clients cm \<noteq> None then Some ((clients cm, None), w, cm)
      else if connecting cm then
        (if clients cm \<noteq> None then Some ((clients cm, None), w, cm)
         else Some ((None, Some (errors_New ''connection attempt in progress'')), w, cm))
      else
        (case reconnect_loop env 0 (InitialBackoff (config cm)) w (cm\<lparr>connecting := True\<rparr>) of
           None \<Rightarrow> None
         | Some (r, w', cm') \<Rightarrow> Some (r, w', cm'\<lparr>connecting := False\<rparr>)))"

text \<open>\<open>GetClients\<close> returns \<open>None\<close> when the retry loop it started never returns.\<close>

definition GetClients ::
  "env \<Rightarrow> world \<Rightarrow> ConnectionManager \<Rightarrow>
   ((nat option \<times> go_error option) \<times> world \<times> ConnectionManager) option" where
  "GetClients env w cm =
     (if clients cm \<noteq> None then Some ((clients cm, None), w, cm)
      else reconnectIfNeeded env w cm)"

definition MarkConnectionBroken :: "ConnectionManager \<Rightarrow> ConnectionManager" where
  "MarkConnectionBroken cm = (if clients cm \<noteq> None then cleanup cm else cm)"

definition Close :: "ConnectionManager \<Rightarrow> go_error option \<times> ConnectionManager" where
  "Close cm = (None, cleanup cm)"

section \<open>The resilient client wrappers (runtime/resilient\_clients.go)\<close>

text \<open>
  The twenty-four wrapper methods of the five client types have the same body and
  differ in the method of the underlying client that they call. That call is the
  parameter \<open>call\<close>: \<open>call n b\<close> is what invocation number \<open>n\<close> of the underlying method
  gives on the bundle at address \<open>b\<close>, an error or a result. A wrapper returns a result,
  an error, or it panics on a \<open>nil\<close> bundle; it does not return (\<open>None\<close>) when
  \<open>GetClients\<close> does not.
\<close>

datatype 'r rpc_return = Result 'r | Failure go_error | Panic

function resilient_loop ::
  "(nat \<Rightarrow> nat \<Rightarrow> go_error + 'r) \<Rightarrow> env \<Rightarrow> int \<Rightarrow> world \<Rightarrow> ConnectionManager \<Rightarrow>
   ('r rpc_return \<times> world \<times> ConnectionManager) option" where
  "resilient_loop call env attempt w cm =
     (if attempt \<le> 1 then
        (case GetClients env w cm of
           None \<Rightarrow> None
         | Some ((bundle, Some err), w1, cm1) \<Rightarrow> Some (Failure err, w1, cm1)
         | Some ((None, None), w1, cm1) \<Rightarrow> Some (Panic, w1, cm1)
         | Some ((Some b, None), w1, cm1) \<Rightarrow>
             (case call (rpcs w1) b of
                Inr result \<Rightarrow> Some (Result result, w1\<lparr>rpcs := Suc (rpcs w1)\<rparr>, cm1)
              | Inl err \<Rightarrow>
                  if isConnectionError (Some err) \<and> attempt = 0 then
                    resilient_loop call env (attempt + 1)
                      (w1\<lparr>rpcs := Suc (rpcs w1), marks := Suc (marks w1)\<rparr>)
                      (MarkConnectionBroken cm1)
                  else Some (Failure err, w1\<lparr>rpcs := Suc (rpcs w1)\<rparr>, cm1)))
      else Some (Failure context_DeadlineExceeded, w, cm))"
  by pat_completeness auto
termination
  by (relation "measure (\<lambda>(call, env, attempt, w, cm). nat (2 - attempt))") auto

declare resilient_loop.simps [simp del]

definition resilient_call ::
  "(nat \<Rightarrow> nat \<Rightarrow> go_error + 'r) \<Rightarrow> env \<Rightarrow> world \<Rightarrow> ConnectionManager \<Rightarrow>
   ('r rpc_return \<times> world \<times> ConnectionManager) option" where
  "resilient_call call env w cm = resilient_loop call env 0 w cm"

section \<open>States and environments used in the statements\<close>

text \<open>The disconnected state: no transport, no client over it, no bundle.\<close>

definition disconnected :: "ConnectionManager \<Rightarrow> bool" where
  "disconnected cm \<longleftrightarrow> conn cm = None \<and> rpcClient cm = None \<and> clients cm = None"

text \<open>
  The three handles go together: \<open>connect\<close> sets them at once and \<open>cleanup\<close> clears
  them at once, so a manager without a bundle has no transport either.
\<close>

definition coherent :: "ConnectionManager \<Rightarrow> bool" where
  "coherent cm \<longleftrightarrow> (clients cm = None \<longrightarrow> conn cm = None \<and> rpcClient cm = None)"

text \<open>The world before anything happened.\<close>

definition new_world :: world where
  "new_world = \<lparr>dials = 0, timers = [], allocs = 0, rpcs = 0, marks = 0\<rparr>"

text \<open>A peer that refuses every dial, and a peer that accepts every dial; no cancellation.\<close>

definition refusing_env :: env where
  "refusing_env =
     \<lparr>dial_result = (\<lambda>n. Inl (errors_New ''connect: connection refused'')),
      ctx_done = (\<lambda>n. None)\<rparr>"

definition accepting_env :: env where
  "accepting_env = \<lparr>dial_result = (\<lambda>n. Inr n), ctx_done = (\<lambda>n. None)\<rparr>"

text \<open>
  The configuration of \<open>TestConnectionManager_Reconnection\<close> (2 retries, 10 ms, 100 ms,
  factor 2.0, 1 s) and the manager that the test builds from it; with a configuration
  given, the default timeout is not used.
\<close>

definition test_config :: ConnectionConfig where
  "test_config =
     \<lparr>MaxRetries = 2,
      InitialBackoff = 10 * 1000000,
      MaxBackoff = 100 * 1000000,
      BackoffFactor = (\<lambda>b. 2 * b),
      ConnectTimeout = 1 * 1000000000\<rparr>"

definition test_manager :: ConnectionManager where
  "test_manager = NewConnectionManager 0 ''/fake/path'' 12345 (Some test_config)"

text \<open>A configuration whose initial backoff (10 s) is above its maximum (5 s).\<close>

definition inverted_config :: ConnectionConfig where
  "inverted_config =
     \<lparr>MaxRetries = 2,
      InitialBackoff = 10 * 1000000000,
      MaxBackoff = 5 * 1000000000,
      BackoffFactor = (\<lambda>b. 2 * b),
      ConnectTimeout = 1 * 1000000000\<rparr>"

definition inverted_manager :: ConnectionManager where
  "inverted_manager = NewConnectionManager 0 ''/fake/path'' 12345 (Some inverted_config)"

text \<open>The test manager and the world after one successful \<open>Connect\<close> to an accepting peer.\<close>

definition connected_manager :: ConnectionManager where
  "connected_manager = snd (snd (Connect accepting_env new_world test_manager))"

definition connected_world :: world where
  "connected_world = fst (snd (Connect accepting_env new_world test_manager))"

text \<open>
  An underlying method that fails with \<open>EOF\<close> on its first invocation and with
  \<open>broken pipe\<close> afterwards, and one that always fails with the application error of the
  test, \<open>some other error\<close>.
\<close>

definition flaky_call :: "nat \<Rightarrow> nat \<Rightarrow> go_error + unit" where
  "flaky_call n b = Inl (if n = 0 then errors_New ''EOF'' else errors_New ''broken pipe'')"

definition rejecting_call :: "nat \<Rightarrow> nat \<Rightarrow> go_error + unit" where
  "rejecting_call n b = Inl (errors_New ''some other error'')"

text \<open>The delays that one run added to the timers of the world.\<close>

definition new_delays :: "world \<Rightarrow> world \<Rightarrow> int list" where
  "new_delays w w' = drop (length (timers w)) (timers w')"




text \<open>\<open>context.Canceled\<close>, and a peer that refuses every dial while the context is cancelled.\<close>

definition context_Canceled :: go_error where
  "context_Canceled = errors_New ''context canceled''"

definition cancelling_env :: env where
  "cancelling_env =
     \<lparr>dial_result = (\<lambda>n. Inl (errors_New ''connect: connection refused'')),
      ctx_done = (\<lambda>n. Some context_Canceled)\<rparr>"



text \<open>The test configuration with the factor 0.5, which halves a delay (10 ms gives 5 ms).\<close>

definition halving_config :: ConnectionConfig where
  "halving_config = test_config\<lparr>BackoffFactor := (\<lambda>b. b div 2)\<rparr>"

definition halving_manager :: ConnectionManager where
  "halving_manager = NewConnectionManager 0 ''/fake/path'' 12345 (Some halving_config)"

section \<open>The classifier\<close>

lemma match_patterns_iff: "match_patterns s ps \<longleftrightarrow> (\<exists>p\<in>set ps. ends_with s p)"
  by (induction ps) auto

lemma isConnectionError_suffix:
  "as_net_error e = None \<Longrightarrow> p \<in> set connectionErrorPatterns \<Longrightarrow> ends_with (Error e) p \<Longrightarrow> isConnectionError (Some e)"
  by (auto simp: isConnectionError_def match_patterns_iff split: option.splits)

text \<open>
  C2. Claimed: every non-nil error whose message ends with one of the fixed suffixes is
  classified as a connection error, whatever its dynamic type. The classifier returns
  from the \<open>net.Error\<close> branch before it reads the message: an error that implements
  \<open>net.Error\<close>, is neither a timeout nor temporary, and whose message ends with
  \<open>connection refused\<close> (the \<open>*net.OpError\<close> of a refused dial) is classified as no
  connection error.
\<close>

theorem isConnectionError_net_error_refused:
  "ends_with (Error (GoError (Some (False, False)) None ''connect: connection refused'' None))
     ''connection refused'' \<and>
   ''connection refused'' \<in> set connectionErrorPatterns \<and>
   isConnectionError (Some (GoError (Some (False, False)) None ''connect: connection refused'' None)) = False"
  by (simp add: isConnectionError_def ends_with_def connectionErrorPatterns_def)

section \<open>The translator\<close>

text \<open>
  C8. For an ID with no registered mapping both translations are the identity and
  \<open>IsCloneTask\<close> is false; after \<open>RegisterCloneMapping ext itl\<close> on a new translator,
  \<open>ext\<close> translates to \<open>itl\<close>, \<open>itl\<close> translates back to \<open>ext\<close>, and \<open>ext\<close> is a clone task.
\<close>

theorem translate_identity_and_register:
  "(externalToInternal t x = None \<longrightarrow> TranslateToInternal t x = x \<and> IsCloneTask t x = False) \<and>
   (internalToExternal t x = None \<longrightarrow> TranslateToExternal t x = x) \<and>
   TranslateToInternal (RegisterCloneMapping NewTaskTranslator ext itl) ext = itl \<and>
   TranslateToExternal (RegisterCloneMapping NewTaskTranslator ext itl) itl = ext \<and>
   IsCloneTask (RegisterCloneMapping NewTaskTranslator ext itl) ext = True"
  by (simp add: TranslateToInternal_def TranslateToExternal_def IsCloneTask_def
      RegisterCloneMapping_def NewTaskTranslator_def)

theorem translate_identity_and_register_witness:
  "externalToInternal (RegisterCloneMapping NewTaskTranslator ''ext1'' ''int1'') ''unmapped'' = None \<and>
   internalToExternal (RegisterCloneMapping NewTaskTranslator ''ext1'' ''int1'') ''unmapped'' = None \<and>
   TranslateToInternal (RegisterCloneMapping NewTaskTranslator ''ext1'' ''int1'') ''unmapped'' = ''unmapped'' \<and>
   TranslateToExternal (RegisterCloneMapping NewTaskTranslator ''ext1'' ''int1'') ''unmapped'' = ''unmapped'' \<and>
   IsCloneTask (RegisterCloneMapping NewTaskTranslator ''ext1'' ''int1'') ''unmapped'' = False \<and>
   TranslateToInternal (RegisterCloneMapping NewTaskTranslator ''ext1'' ''int1'') ''ext1'' = ''int1'' \<and>
   TranslateToExternal (RegisterCloneMapping NewTaskTranslator ''ext1'' ''int1'') ''int1'' = ''ext1'' \<and>
   IsCloneTask (RegisterCloneMapping NewTaskTranslator ''ext1'' ''int1'') ''ext1'' = True"
proof -
  have a: "externalToInternal (RegisterCloneMapping NewTaskTranslator ''ext1'' ''int1'') ''unmapped'' = None"
    by (simp add: RegisterCloneMapping_def NewTaskTranslator_def)
  have b: "internalToExternal (RegisterCloneMapping NewTaskTranslator ''ext1'' ''int1'') ''unmapped'' = None"
    by (simp add: RegisterCloneMapping_def NewTaskTranslator_def)
  show ?thesis
    using a b translate_identity_and_register
      [of "RegisterCloneMapping NewTaskTranslator ''ext1'' ''int1''" "''unmapped''" "''ext1''" "''int1''"]
    by simp
qed

lemma register_conflict_free_consistent:
  assumes c: "consistent t" and f: "conflict_free t ext itl"
  shows "consistent (RegisterCloneMapping t ext itl)"
  unfolding consistent_def
proof (intro allI)
  fix e i
  have ci: "\<And>a b. externalToInternal t a = Some b \<longleftrightarrow> internalToExternal t b = Some a"
    using c by (simp add: consistent_def)
  show "externalToInternal (RegisterCloneMapping t ext itl) e = Some i \<longleftrightarrow>
        internalToExternal (RegisterCloneMapping t ext itl) i = Some e"
  proof (cases "e = ext")
    case True
    show ?thesis
    proof (cases "i = itl")
      case True
      with \<open>e = ext\<close> show ?thesis by (simp add: RegisterCloneMapping_def)
    next
      case False
      have "internalToExternal t i \<noteq> Some ext"
        using f False ci [of ext i] by (auto simp: conflict_free_def)
      with False True show ?thesis by (simp add: RegisterCloneMapping_def)
    qed
  next
    case False
    show ?thesis
    proof (cases "i = itl")
      case True
      have "externalToInternal t e \<noteq> Some itl"
        using f False ci [of e itl] by (auto simp: conflict_free_def)
      with False True show ?thesis by (simp add: RegisterCloneMapping_def)
    next
      case False
      with \<open>e \<noteq> ext\<close> show ?thesis by (simp add: RegisterCloneMapping_def ci)
    qed
  qed
qed

lemma register_consistent_conflict_free:
  assumes c: "consistent t" and r: "consistent (RegisterCloneMapping t ext itl)"
  shows "conflict_free t ext itl"
proof -
  have ci: "\<And>a b. externalToInternal t a = Some b \<longleftrightarrow> internalToExternal t b = Some a"
    using c by (simp add: consistent_def)
  have ri: "\<And>a b. externalToInternal (RegisterCloneMapping t ext itl) a = Some b \<longleftrightarrow>
                   internalToExternal (RegisterCloneMapping t ext itl) b = Some a"
    using r by (simp add: consistent_def)
  have one: "externalToInternal t ext = None \<or> externalToInternal t ext = Some itl"
  proof (cases "externalToInternal t ext")
    case None
    then show ?thesis by simp
  next
    case (Some i)
    then have "internalToExternal t i = Some ext" by (simp add: ci)
    then have "i = itl"
      using ri [of ext i] by (cases "i = itl") (simp_all add: RegisterCloneMapping_def)
    with Some show ?thesis by simp
  qed
  have two: "internalToExternal t itl = None \<or> internalToExternal t itl = Some ext"
  proof (cases "internalToExternal t itl")
    case None
    then show ?thesis by simp
  next
    case (Some e)
    then have "externalToInternal t e = Some itl" by (simp add: ci)
    then have "e = ext"
      using ri [of e itl] by (cases "e = ext") (simp_all add: RegisterCloneMapping_def)
    with Some show ?thesis by simp
  qed
  from one two show ?thesis by (simp add: conflict_free_def)
qed

lemma consistent_New: "consistent NewTaskTranslator"
  by (simp add: consistent_def NewTaskTranslator_def)

text \<open>
  C4, as claimed: the two maps stay mutually consistent under every
  \<open>RegisterCloneMapping\<close>, also when an ID that is already mapped is registered with a
  new partner. Registering \<open>a\<close> with \<open>x\<close> and then \<open>a\<close> with \<open>y\<close> leaves the stale
  entry \<open>x \<mapsto> a\<close> in the internal-to-external map.
\<close>

theorem register_breaks_consistency:
  "consistent (RegisterCloneMapping NewTaskTranslator ''a'' ''x'') \<and>
   \<not> consistent (RegisterCloneMapping (RegisterCloneMapping NewTaskTranslator ''a'' ''x'') ''a'' ''y'')"
proof
  show "consistent (RegisterCloneMapping NewTaskTranslator ''a'' ''x'')"
    by (auto simp: consistent_def RegisterCloneMapping_def NewTaskTranslator_def split: if_splits)
  show "\<not> consistent (RegisterCloneMapping (RegisterCloneMapping NewTaskTranslator ''a'' ''x'') ''a'' ''y'')"
  proof
    assume "consistent (RegisterCloneMapping (RegisterCloneMapping NewTaskTranslator ''a'' ''x'') ''a'' ''y'')"
    then have "externalToInternal (RegisterCloneMapping (RegisterCloneMapping NewTaskTranslator ''a'' ''x'') ''a'' ''y'') ''a'' = Some ''x''
       \<longleftrightarrow> internalToExternal (RegisterCloneMapping (RegisterCloneMapping NewTaskTranslator ''a'' ''x'') ''a'' ''y'') ''x'' = Some ''a''"
      unfolding consistent_def by blast
    then show False
      by (simp add: RegisterCloneMapping_def NewTaskTranslator_def)
  qed
qed

text \<open>
  C4, amended: a new translator is consistent, and a registration on a consistent
  translator keeps it consistent exactly when it is free of conflict, that is when
  neither ID is already mapped to a different partner.
\<close>

theorem register_preserves_consistency:
  "consistent NewTaskTranslator \<and>
   (consistent t \<longrightarrow>
      (consistent (RegisterCloneMapping t ext itl) \<longleftrightarrow> conflict_free t ext itl))"
  using consistent_New register_conflict_free_consistent register_consistent_conflict_free
  by blast

theorem register_preserves_consistency_witness:
  "consistent (RegisterCloneMapping NewTaskTranslator ''a'' ''x'') \<and>
   conflict_free (RegisterCloneMapping NewTaskTranslator ''a'' ''x'') ''b'' ''y'' \<and>
   consistent (RegisterCloneMapping (RegisterCloneMapping NewTaskTranslator ''a'' ''x'') ''b'' ''y'') \<and>
   \<not> conflict_free (RegisterCloneMapping NewTaskTranslator ''a'' ''x'') ''a'' ''y''"
proof -
  have n: "conflict_free NewTaskTranslator ''a'' ''x''"
    by (simp add: conflict_free_def NewTaskTranslator_def)
  have c1: "consistent (RegisterCloneMapping NewTaskTranslator ''a'' ''x'')"
    using n register_preserves_consistency [of NewTaskTranslator "''a''" "''x''"] by simp
  have f: "conflict_free (RegisterCloneMapping NewTaskTranslator ''a'' ''x'') ''b'' ''y''"
    by (simp add: conflict_free_def RegisterCloneMapping_def NewTaskTranslator_def)
  have g: "\<not> conflict_free (RegisterCloneMapping NewTaskTranslator ''a'' ''x'') ''a'' ''y''"
    by (simp add: conflict_free_def RegisterCloneMapping_def NewTaskTranslator_def)
  show ?thesis
    using c1 f g
      register_preserves_consistency
        [of "RegisterCloneMapping NewTaskTranslator ''a'' ''x''" "''b''" "''y''"]
    by simp
qed

section \<open>The reconnect loop\<close>

lemma config_cleanup [simp]: "config (cleanup cm) = config cm"
  by (simp add: cleanup_def Let_def)

lemma connecting_cleanup [simp]: "connecting (cleanup cm) = connecting cm"
  by (simp add: cleanup_def Let_def)

lemma cleanup_fields [simp]:
  "clients (cleanup cm) = None" "conn (cleanup cm) = None" "rpcClient (cleanup cm) = None"
  by (simp_all add: cleanup_def Let_def)

lemma cleanup_idem [simp]: "cleanup (cleanup cm) = cleanup cm"
  by (simp add: cleanup_def Let_def)

lemma connect_Some:
  "connect env w cm = (Some err, w2, cm2) \<Longrightarrow>
     cm2 = cm \<and> w2 = w\<lparr>dials := Suc (dials w)\<rparr> \<and>
     (\<exists>e. dial_result env (dials w) = Inl e \<and> err = fmt_Errorf_w ''failed to dial VM over vsock: '' e)"
  by (auto simp: connect_def split: sum.splits)

lemma connect_None:
  "connect env w cm = (None, w2, cm2) \<Longrightarrow>
     w2 = w\<lparr>dials := Suc (dials w), allocs := Suc (allocs w)\<rparr> \<and>
     clients cm2 = Some (allocs w) \<and> config cm2 = config cm \<and> connecting cm2 = connecting cm \<and>
     (\<exists>c. dial_result env (dials w) = Inr c)"
  by (auto simp: connect_def split: sum.splits)

lemma backoff_wait_world:
  "backoff_wait env cfg attempt backoff w = (r, b1, w1) \<Longrightarrow>
     dials w1 = dials w \<and> allocs w1 = allocs w \<and> rpcs w1 = rpcs w \<and> marks w1 = marks w"
  by (auto simp: backoff_wait_def Let_def split: if_splits option.splits)







lemma loop_induct [consumes 1, case_names exit cancel success retry]:
  assumes run: "reconnect_loop env attempt backoff w cm = Some y"
    and exit: "\<And>env attempt backoff w cm.
      \<not> word_sle attempt (MaxRetries (config cm)) \<Longrightarrow>
      P env attempt backoff w cm
        ((None,
          Some (errors_New (''failed to establish vsock connection after '' @
                  fmt_d (sint (MaxRetries (config cm) + 1)) @ '' attempts''))),
         w, cm)"
    and cancel: "\<And>env attempt backoff w cm e b1 w1.
      word_sle attempt (MaxRetries (config cm)) \<Longrightarrow>
      backoff_wait env (config cm) attempt backoff w = (Some e, b1, w1) \<Longrightarrow>
      P env attempt backoff w cm ((None, Some e), w1, cm)"
    and success: "\<And>env attempt backoff w cm b1 w1 w2 cm2.
      word_sle attempt (MaxRetries (config cm)) \<Longrightarrow>
      backoff_wait env (config cm) attempt backoff w = (None, b1, w1) \<Longrightarrow>
      connect env w1 cm = (None, w2, cm2) \<Longrightarrow>
      P env attempt backoff w cm ((clients cm2, None), w2, cm2)"
    and retry: "\<And>env attempt backoff w cm b1 w1 err w2 cm2 y.
      word_sle attempt (MaxRetries (config cm)) \<Longrightarrow>
      backoff_wait env (config cm) attempt backoff w = (None, b1, w1) \<Longrightarrow>
      connect env w1 cm = (Some err, w2, cm2) \<Longrightarrow>
      P env (attempt + 1) b1 w2 (cleanup cm2) y \<Longrightarrow>
      P env attempt backoff w cm y"
  shows "P env attempt backoff w cm y"
proof (rule reconnect_loop.raw_induct [where P = P, OF _ run], goal_cases)
  case (1 f env attempt backoff w cm y)
  note IH = "1"(1) and body = "1"(2)
  show ?case
  proof (cases "word_sle attempt (MaxRetries (config cm))")
    case False
    with body exit [OF False, of env backoff w] show ?thesis by auto
  next
    case le: True
    obtain x b1 w1 where bw: "backoff_wait env (config cm) attempt backoff w = (x, b1, w1)"
      by (cases "backoff_wait env (config cm) attempt backoff w") auto
    show ?thesis
    proof (cases x)
      case (Some e)
      with body le bw cancel [OF le bw [unfolded Some]] show ?thesis by auto
    next
      case None
      obtain z w2 cm2 where co: "connect env w1 cm = (z, w2, cm2)"
        by (cases "connect env w1 cm") auto
      show ?thesis
      proof (cases z)
        case zN: None
        with body le bw None co success [OF le bw [unfolded None] co [unfolded zN]]
        show ?thesis by auto
      next
        case (Some err)
        from body le bw None co Some
        have "f env (attempt + 1) b1 w2 (cleanup cm2) = Some y" by simp
        then have "P env (attempt + 1) b1 w2 (cleanup cm2) y" by (rule IH)
        then show ?thesis
          by (rule retry [OF le bw [unfolded None] co [unfolded Some]])
      qed
    qed
  qed
qed

lemma loop_props:
  assumes "reconnect_loop env attempt backoff w cm = Some (r, w', cm')"
  shows "rpcs w' = rpcs w \<and> marks w' = marks w \<and> config cm' = config cm \<and>
     connecting cm' = connecting cm \<and> (coherent cm \<longrightarrow> coherent cm') \<and>
     (\<forall>x. fst r = Some x \<longrightarrow> allocs w \<le> x \<and> clients cm' = Some x \<and> snd r = None)"
proof -
  have "rpcs (fst (snd y)) = rpcs w \<and> marks (fst (snd y)) = marks w \<and>
        config (snd (snd y)) = config cm \<and> connecting (snd (snd y)) = connecting cm \<and>
        (coherent cm \<longrightarrow> coherent (snd (snd y))) \<and>
        (\<forall>x. fst (fst y) = Some x \<longrightarrow>
           allocs w \<le> x \<and> clients (snd (snd y)) = Some x \<and> snd (fst y) = None)"
    if "reconnect_loop env attempt backoff w cm = Some y" for y
    using that
  proof (induction rule: loop_induct)
    case (exit env attempt backoff w cm)
    then show ?case by simp
  next
    case (cancel env attempt backoff w cm e b1 w1)
    then show ?case using backoff_wait_world [OF cancel(2)] by simp
  next
    case (success env attempt backoff w cm b1 w1 w2 cm2)
    then show ?case
      using backoff_wait_world [OF success(2)] connect_None [OF success(3)]
      by (simp add: coherent_def)
  next
    case (retry env attempt backoff w cm b1 w1 err w2 cm2 y)
    have "coherent (cleanup cm2)" by (simp add: coherent_def)
    with retry show ?case
      using backoff_wait_world [OF retry(2)] connect_Some [OF retry(3)]
      by simp
  qed
  from this [OF assms] show ?thesis by simp
qed


lemma backoff_wait_timers:
  "backoff_wait env cfg attempt backoff w = (x, b1, w1) \<Longrightarrow>
     timers w1 = timers w @ (if word_sless 0 attempt then [backoff] else [])"
  by (auto simp: backoff_wait_def Let_def split: if_splits option.splits)

lemma backoff_wait_bound:
  "backoff_wait env cfg attempt backoff w = (None, b1, w1) \<Longrightarrow>
     backoff \<le> MaxBackoff cfg \<Longrightarrow> b1 \<le> MaxBackoff cfg"
  by (auto simp: backoff_wait_def Let_def split: if_splits option.splits)

lemma backoff_wait_grow:
  "backoff_wait env cfg attempt backoff w = (None, b1, w1) \<Longrightarrow>
     backoff \<le> MaxBackoff cfg \<Longrightarrow> backoff \<le> BackoffFactor cfg backoff \<Longrightarrow> backoff \<le> b1"
  by (auto simp: backoff_wait_def Let_def split: if_splits option.splits)

lemma loop_timers:
  assumes "reconnect_loop env attempt backoff w cm = Some (r, w', cm')"
    and "backoff \<le> MaxBackoff (config cm)"
  shows "\<exists>ds. timers w' = timers w @ ds \<and> (\<forall>d\<in>set ds. d \<le> MaxBackoff (config cm)) \<and>
           (lo \<le> backoff \<and>
            (\<forall>b. lo \<le> b \<and> b \<le> MaxBackoff (config cm) \<longrightarrow> b \<le> BackoffFactor (config cm) b) \<longrightarrow>
              sorted ds \<and> (\<forall>d\<in>set ds. backoff \<le> d))"
proof -
  have "backoff \<le> MaxBackoff (config cm) \<longrightarrow>
        (\<exists>ds. timers (fst (snd y)) = timers w @ ds \<and> (\<forall>d\<in>set ds. d \<le> MaxBackoff (config cm)) \<and>
           (lo \<le> backoff \<and>
            (\<forall>b. lo \<le> b \<and> b \<le> MaxBackoff (config cm) \<longrightarrow> b \<le> BackoffFactor (config cm) b) \<longrightarrow>
              sorted ds \<and> (\<forall>d\<in>set ds. backoff \<le> d)))"
    if "reconnect_loop env attempt backoff w cm = Some y" for y
    using that
  proof (induction rule: loop_induct)
    case (exit env attempt backoff w cm)
    then show ?case by simp
  next
    case (cancel env attempt backoff w cm e b1 w1)
    show ?case using backoff_wait_timers [OF cancel(2)] by simp
  next
    case (success env attempt backoff w cm b1 w1 w2 cm2)
    show ?case
      using backoff_wait_timers [OF success(2)] connect_None [OF success(3)] by simp
  next
    case (retry env attempt backoff w cm b1 w1 err w2 cm2 y)
    note t1 = backoff_wait_timers [OF retry(2)]
    note c2 = connect_Some [OF retry(3)]
    show ?case
    proof
      assume hi: "backoff \<le> MaxBackoff (config cm)"
      have hi1: "b1 \<le> MaxBackoff (config cm)"
        by (rule backoff_wait_bound [OF retry(2) hi])
      with retry(4) c2 obtain ds where ds: "timers (fst (snd y)) = timers w2 @ ds"
        "\<forall>d\<in>set ds. d \<le> MaxBackoff (config cm)"
        "lo \<le> b1 \<and>
           (\<forall>b. lo \<le> b \<and> b \<le> MaxBackoff (config cm) \<longrightarrow> b \<le> BackoffFactor (config cm) b) \<longrightarrow>
             sorted ds \<and> (\<forall>d\<in>set ds. b1 \<le> d)"
        by auto
      let ?pre = "if word_sless 0 attempt then [backoff] else []"
      have a: "timers (fst (snd y)) = timers w @ (?pre @ ds)"
        using ds(1) t1 c2 by simp
      have b: "\<forall>d\<in>set (?pre @ ds). d \<le> MaxBackoff (config cm)"
        using ds(2) hi by auto
      have c: "sorted (?pre @ ds) \<and> (\<forall>d\<in>set (?pre @ ds). backoff \<le> d)"
        if lo: "lo \<le> backoff"
          and grow: "\<forall>b. lo \<le> b \<and> b \<le> MaxBackoff (config cm) \<longrightarrow> b \<le> BackoffFactor (config cm) b"
      proof -
        have "backoff \<le> BackoffFactor (config cm) backoff" using lo hi grow by blast
        then have le: "backoff \<le> b1" by (rule backoff_wait_grow [OF retry(2) hi])
        with lo grow ds(3) have "sorted ds" "\<forall>d\<in>set ds. b1 \<le> d" by auto
        with le show ?thesis by auto
      qed
      from a b c show "\<exists>ds. timers (fst (snd y)) = timers w @ ds \<and>
           (\<forall>d\<in>set ds. d \<le> MaxBackoff (config cm)) \<and>
           (lo \<le> backoff \<and>
            (\<forall>b. lo \<le> b \<and> b \<le> MaxBackoff (config cm) \<longrightarrow> b \<le> BackoffFactor (config cm) b) \<longrightarrow>
              sorted ds \<and> (\<forall>d\<in>set ds. backoff \<le> d))"
        by blast
    qed
  qed
  from this [OF assms(1)] assms(2) show ?thesis by simp
qed





section \<open>Evaluation on the examples\<close>

lemmas eval_defs = GetClients_def reconnectIfNeeded_def NewConnectionManager_def
  refusing_env_def accepting_env_def cancelling_env_def new_world_def reconnect_loop.simps
  backoff_wait_def connect_def cleanup_def Let_def fmt_d_def dec_nat.simps digit_char_def
  errors_New_def fmt_Errorf_w_def word_sle_eq word_sless_alt

lemma GetClients_test_refused:
  "GetClients refusing_env new_world test_manager =
     Some ((None, Some (errors_New ''failed to establish vsock connection after 3 attempts'')),
           \<lparr>dials = 3, timers = [10000000, 20000000], allocs = 0, rpcs = 0, marks = 0\<rparr>,
           test_manager)"
  by (simp add: eval_defs test_manager_def test_config_def)

lemma GetClients_inverted_refused:
  "GetClients refusing_env new_world inverted_manager =
     Some ((None, Some (errors_New ''failed to establish vsock connection after 3 attempts'')),
           \<lparr>dials = 3, timers = [10000000000, 5000000000], allocs = 0, rpcs = 0, marks = 0\<rparr>,
           inverted_manager)"
  by (simp add: eval_defs inverted_manager_def inverted_config_def)

lemma GetClients_halving_refused:
  "GetClients refusing_env new_world halving_manager =
     Some ((None, Some (errors_New ''failed to establish vsock connection after 3 attempts'')),
           \<lparr>dials = 3, timers = [10000000, 5000000], allocs = 0, rpcs = 0, marks = 0\<rparr>,
           halving_manager)"
  by (simp add: eval_defs halving_manager_def halving_config_def test_config_def)


lemma connected_manager_eval:
  "connected_manager = test_manager\<lparr>conn := Some 0, rpcClient := Some 0, clients := Some 0\<rparr>"
  "connected_world = \<lparr>dials = 1, timers = [], allocs = 1, rpcs = 0, marks = 0\<rparr>"
  by (simp_all add: connected_manager_def connected_world_def Connect_def connect_def
      accepting_env_def new_world_def test_manager_def NewConnectionManager_def)

section \<open>Connect\<close>

text \<open>
  C5, as claimed: \<open>Connect\<close> returns the error value of the dial unchanged. On the test
  manager with a peer that refuses the dial, the error returned is not the error that
  the dial produced.
\<close>

theorem Connect_error_not_verbatim:
  "clients test_manager = None \<and>
   dial_result refusing_env (dials new_world) = Inl (errors_New ''connect: connection refused'') \<and>
   fst (Connect refusing_env new_world test_manager) \<noteq>
     Some (errors_New ''connect: connection refused'')"
  by (simp add: Connect_def connect_def test_manager_def NewConnectionManager_def
      refusing_env_def new_world_def errors_New_def fmt_Errorf_w_def)

text \<open>
  C5, amended: when \<open>Connect\<close> is called without a bundle and the dial fails, it makes
  this one dial and no other, leaves the manager as it was, and returns the dial error
  wrapped: a new error whose message is \<open>failed to dial VM over vsock: \<close> followed by
  the message of the dial error, and which unwraps to the dial error.
\<close>

theorem Connect_wraps_dial_error:
  assumes "clients cm = None" and "dial_result env (dials w) = Inl err"
  shows "Connect env w cm =
           (Some (fmt_Errorf_w ''failed to dial VM over vsock: '' err),
            w\<lparr>dials := Suc (dials w)\<rparr>, cm) \<and>
         Error (fmt_Errorf_w ''failed to dial VM over vsock: '' err) =
           ''failed to dial VM over vsock: '' @ Error err \<and>
         Unwrap (fmt_Errorf_w ''failed to dial VM over vsock: '' err) = Some err"
  using assms by (simp add: Connect_def connect_def fmt_Errorf_w_def)

theorem Connect_wraps_dial_error_witness:
  "Connect refusing_env new_world test_manager =
     (Some (fmt_Errorf_w ''failed to dial VM over vsock: ''
              (errors_New ''connect: connection refused'')),
      new_world\<lparr>dials := Suc (dials new_world)\<rparr>, test_manager) \<and>
   Error (fmt_Errorf_w ''failed to dial VM over vsock: ''
              (errors_New ''connect: connection refused'')) =
     ''failed to dial VM over vsock: connect: connection refused'' \<and>
   dials (new_world\<lparr>dials := Suc (dials new_world)\<rparr>) = 1"
proof -
  have a: "clients test_manager = None"
    by (simp add: test_manager_def NewConnectionManager_def)
  have b: "dial_result refusing_env (dials new_world) = Inl (errors_New ''connect: connection refused'')"
    by (simp add: refusing_env_def)
  show ?thesis
    using Connect_wraps_dial_error [OF a b]
    by (simp add: errors_New_def new_world_def)
qed

section \<open>GetClients and the retry budget\<close>

lemma disconnected_cleanup: "disconnected cm \<Longrightarrow> cleanup cm = cm"
  by (simp add: disconnected_def cleanup_def Let_def)

lemma GetClients_slow:
  "clients cm = None \<Longrightarrow> \<not> connecting cm \<Longrightarrow>
     GetClients env w cm =
       (case reconnect_loop env 0 (InitialBackoff (config cm)) w (cm\<lparr>connecting := True\<rparr>) of
          None \<Rightarrow> None
        | Some (r, w', cm') \<Rightarrow> Some (r, w', cm'\<lparr>connecting := False\<rparr>))"
  by (simp add: GetClients_def reconnectIfNeeded_def)

lemma GetClients_fast:
  "\<not> (clients cm = None \<and> \<not> connecting cm) \<Longrightarrow>
     \<exists>r. GetClients env w cm = Some (r, w, cm) \<and> (\<forall>x. fst r = Some x \<longrightarrow> clients cm = Some x)"
  by (auto simp: GetClients_def reconnectIfNeeded_def)

text \<open>
  Every operation keeps the manager coherent, so the managers that reach the retry loop
  are the disconnected ones.
\<close>

lemma coherent_New: "coherent (NewConnectionManager t path port cfg)"
  by (simp add: coherent_def NewConnectionManager_def)

lemma coherent_disconnected: "disconnected cm \<longleftrightarrow> coherent cm \<and> clients cm = None"
  by (auto simp: coherent_def disconnected_def)

lemma coherent_Connect: "coherent cm \<Longrightarrow> coherent (snd (snd (Connect env w cm)))"
  by (auto simp: coherent_def Connect_def connect_def split: sum.splits)

lemma coherent_MarkConnectionBroken: "coherent cm \<Longrightarrow> coherent (MarkConnectionBroken cm)"
  by (simp add: coherent_def MarkConnectionBroken_def)

lemma coherent_Close: "coherent (snd (Close cm))"
  by (simp add: coherent_def Close_def)

lemma coherent_GetClients:
  assumes "coherent cm" and "GetClients env w cm = Some (r, w', cm')"
  shows "coherent cm'"
proof (cases "clients cm = None \<and> \<not> connecting cm")
  case False
  from GetClients_fast [OF this, of env w] assms show ?thesis by auto
next
  case True
  let ?cm = "cm\<lparr>connecting := True\<rparr>"
  from True assms(2) obtain cm1 where
    run: "reconnect_loop env 0 (InitialBackoff (config cm)) w ?cm = Some (r, w', cm1)"
    and cm': "cm' = cm1\<lparr>connecting := False\<rparr>"
    by (auto simp: GetClients_slow split: option.splits)
  have "coherent ?cm" using assms(1) by (simp add: coherent_def)
  with loop_props [OF run] have "coherent cm1" by simp
  then show ?thesis by (simp add: cm' coherent_def)
qed








section \<open>The backoff delays\<close>

lemma GetClients_timers:
  assumes "GetClients env w cm = Some (r, w', cm')"
    and "InitialBackoff (config cm) \<le> MaxBackoff (config cm)"
  shows "\<exists>ds. timers w' = timers w @ ds \<and> (\<forall>d\<in>set ds. d \<le> MaxBackoff (config cm)) \<and>
           ((\<forall>b. InitialBackoff (config cm) \<le> b \<and> b \<le> MaxBackoff (config cm) \<longrightarrow>
                 b \<le> BackoffFactor (config cm) b) \<longrightarrow> sorted ds)"
proof (cases "clients cm = None \<and> \<not> connecting cm")
  case False
  from GetClients_fast [OF this, of env w] assms(1) have "w' = w" by auto
  then show ?thesis by simp
next
  case True
  let ?cm = "cm\<lparr>connecting := True\<rparr>"
  from True assms(1) obtain cm1 where
    run: "reconnect_loop env 0 (InitialBackoff (config cm)) w ?cm = Some (r, w', cm1)"
    by (auto simp: GetClients_slow split: option.splits)
  have h: "InitialBackoff (config cm) \<le> MaxBackoff (config ?cm)"
    using assms(2) by simp
  from loop_timers [OF run h, of "InitialBackoff (config cm)"]
  show ?thesis by auto
qed

text \<open>
  C9, as claimed: for every configuration the delays of one run are non-decreasing and
  none exceeds \<open>MaxBackoff\<close>. With an initial backoff of 10 s, a maximum of 5 s and the
  factor 2.0, a run in which every dial fails waits 10 s and then 5 s: the first delay
  is above the maximum and the delays decrease. With an initial backoff of 10 ms below
  the maximum of 100 ms and the factor 0.5, such a run waits 10 ms and then 5 ms: the
  delays decrease.
\<close>

theorem backoff_delays_unsorted_unbounded:
  "GetClients refusing_env new_world inverted_manager =
     Some ((None, Some (errors_New ''failed to establish vsock connection after 3 attempts'')),
           \<lparr>dials = 3, timers = [10000000000, 5000000000], allocs = 0, rpcs = 0, marks = 0\<rparr>,
           inverted_manager) \<and>
   new_delays new_world
     \<lparr>dials = 3, timers = [10000000000, 5000000000], allocs = 0, rpcs = 0, marks = 0\<rparr> =
     [10000000000, 5000000000] \<and>
   MaxBackoff (config inverted_manager) = 5000000000 \<and>
   \<not> sorted [10000000000, 5000000000 :: int] \<and>
   \<not> list_all (\<lambda>d. d \<le> MaxBackoff (config inverted_manager)) [10000000000, 5000000000] \<and>
   GetClients refusing_env new_world halving_manager =
     Some ((None, Some (errors_New ''failed to establish vsock connection after 3 attempts'')),
           \<lparr>dials = 3, timers = [10000000, 5000000], allocs = 0, rpcs = 0, marks = 0\<rparr>,
           halving_manager) \<and>
   new_delays new_world
     \<lparr>dials = 3, timers = [10000000, 5000000], allocs = 0, rpcs = 0, marks = 0\<rparr> =
     [10000000, 5000000] \<and>
   InitialBackoff (config halving_manager) \<le> MaxBackoff (config halving_manager) \<and>
   \<not> sorted [10000000, 5000000 :: int]"
proof -
  have m: "MaxBackoff (config inverted_manager) = 5000000000"
    by (simp add: inverted_manager_def NewConnectionManager_def inverted_config_def)
  have h: "InitialBackoff (config halving_manager) \<le> MaxBackoff (config halving_manager)"
    by (simp add: halving_manager_def NewConnectionManager_def halving_config_def test_config_def)
  have d: "new_delays new_world
     \<lparr>dials = 3, timers = [10000000000, 5000000000], allocs = 0, rpcs = 0, marks = 0\<rparr> =
     [10000000000, 5000000000]"
    "new_delays new_world
     \<lparr>dials = 3, timers = [10000000, 5000000], allocs = 0, rpcs = 0, marks = 0\<rparr> =
     [10000000, 5000000]"
    by (simp_all add: new_delays_def new_world_def)
  show ?thesis
    using GetClients_inverted_refused GetClients_halving_refused d h
    by (simp add: m)
qed

text \<open>
  C9, amended: for every configuration whose \<open>InitialBackoff\<close> is at most \<open>MaxBackoff\<close>,
  each delay that one \<open>GetClients\<close> adds is at most \<open>MaxBackoff\<close>; if moreover the factor
  never shrinks a delay between these two, the delays are non-decreasing.
\<close>

theorem backoff_delays_sorted_bounded:
  assumes "GetClients env w cm = Some (r, w', cm')"
    and "InitialBackoff (config cm) \<le> MaxBackoff (config cm)"
  shows "timers w' = timers w @ new_delays w w' \<and>
         (\<forall>d\<in>set (new_delays w w'). d \<le> MaxBackoff (config cm)) \<and>
         ((\<forall>b. InitialBackoff (config cm) \<le> b \<and> b \<le> MaxBackoff (config cm) \<longrightarrow>
               b \<le> BackoffFactor (config cm) b) \<longrightarrow>
            sorted (new_delays w w'))"
proof -
  from GetClients_timers [OF assms]
  obtain ds where ds: "timers w' = timers w @ ds" "\<forall>d\<in>set ds. d \<le> MaxBackoff (config cm)"
    "(\<forall>b. InitialBackoff (config cm) \<le> b \<and> b \<le> MaxBackoff (config cm) \<longrightarrow>
          b \<le> BackoffFactor (config cm) b) \<longrightarrow> sorted ds"
    by blast
  then have "new_delays w w' = ds"
    by (simp add: new_delays_def)
  with ds show ?thesis by simp
qed

theorem backoff_delays_sorted_bounded_witness:
  "GetClients refusing_env new_world test_manager =
     Some ((None, Some (errors_New ''failed to establish vsock connection after 3 attempts'')),
           \<lparr>dials = 3, timers = [10000000, 20000000], allocs = 0, rpcs = 0, marks = 0\<rparr>,
           test_manager) \<and>
   new_delays new_world
     \<lparr>dials = 3, timers = [10000000, 20000000], allocs = 0, rpcs = 0, marks = 0\<rparr> =
     [10000000, 20000000] \<and>
   sorted (new_delays new_world
     \<lparr>dials = 3, timers = [10000000, 20000000], allocs = 0, rpcs = 0, marks = 0\<rparr>) \<and>
   list_all (\<lambda>d. d \<le> MaxBackoff (config test_manager))
     (new_delays new_world
       \<lparr>dials = 3, timers = [10000000, 20000000], allocs = 0, rpcs = 0, marks = 0\<rparr>)"
proof -
  have a: "InitialBackoff (config test_manager) \<le> MaxBackoff (config test_manager)"
    by (simp add: test_manager_def NewConnectionManager_def test_config_def)
  have b: "\<forall>b. InitialBackoff (config test_manager) \<le> b \<and> b \<le> MaxBackoff (config test_manager) \<longrightarrow>
             b \<le> BackoffFactor (config test_manager) b"
    by (simp add: test_manager_def NewConnectionManager_def test_config_def)
  have c: "new_delays new_world
     \<lparr>dials = 3, timers = [10000000, 20000000], allocs = 0, rpcs = 0, marks = 0\<rparr> =
     [10000000, 20000000]"
    by (simp add: new_delays_def new_world_def)
  show ?thesis
    using backoff_delays_sorted_bounded [OF GetClients_test_refused a] b c GetClients_test_refused
    by (simp add: list_all_iff)
qed

section \<open>MarkConnectionBroken\<close>

lemma GetClients_fresh:
  assumes "clients cm = None" and "GetClients env w cm = Some ((Some x, e), w', cm')"
  shows "allocs w \<le> x"
proof (cases "connecting cm")
  case True
  with assms show ?thesis by (simp add: GetClients_def reconnectIfNeeded_def)
next
  case False
  let ?cm = "cm\<lparr>connecting := True\<rparr>"
  from False assms obtain cm1 where
    run: "reconnect_loop env 0 (InitialBackoff (config cm)) w ?cm = Some ((Some x, e), w', cm1)"
    by (auto simp: GetClients_slow split: option.splits)
  from loop_props [OF run] show ?thesis by simp
qed

text \<open>
  C7. When a bundle \<open>b\<close> exists (allocated earlier), \<open>MarkConnectionBroken\<close> leaves the
  manager disconnected; the next \<open>GetClients\<close> goes to \<open>reconnectIfNeeded\<close>, and with no
  reconnect marked as running into the retry loop, and what it returns is not the
  bundle \<open>b\<close>. Without a bundle \<open>MarkConnectionBroken\<close> changes nothing.
\<close>

theorem MarkConnectionBroken_forces_reconnect:
  "(clients cm = Some b \<and> b < allocs w \<longrightarrow>
      disconnected (MarkConnectionBroken cm) \<and>
      GetClients env w (MarkConnectionBroken cm) = reconnectIfNeeded env w (MarkConnectionBroken cm) \<and>
      GetClients env w (MarkConnectionBroken cm) \<noteq> Some ((Some b, e), w', cm') \<and>
      (\<not> connecting cm \<longrightarrow>
         GetClients env w (MarkConnectionBroken cm) =
           (case reconnect_loop env 0 (InitialBackoff (config cm)) w
                   ((MarkConnectionBroken cm)\<lparr>connecting := True\<rparr>) of
              None \<Rightarrow> None
            | Some (r, w', cm') \<Rightarrow> Some (r, w', cm'\<lparr>connecting := False\<rparr>)))) \<and>
   (clients cm = None \<longrightarrow> MarkConnectionBroken cm = cm)"
proof (intro conjI impI)
  assume a: "clients cm = Some b \<and> b < allocs w"
  then have m: "MarkConnectionBroken cm = cleanup cm"
    by (simp add: MarkConnectionBroken_def)
  show "disconnected (MarkConnectionBroken cm)"
    by (simp add: m disconnected_def)
  show "GetClients env w (MarkConnectionBroken cm) = reconnectIfNeeded env w (MarkConnectionBroken cm)"
    by (simp add: m GetClients_def)
  show "GetClients env w (MarkConnectionBroken cm) \<noteq> Some ((Some b, e), w', cm')"
  proof
    assume "GetClients env w (MarkConnectionBroken cm) = Some ((Some b, e), w', cm')"
    then have "allocs w \<le> b"
      using GetClients_fresh [of "cleanup cm" env w b e w' cm'] by (simp add: m)
    with a show False by simp
  qed
  show "GetClients env w (MarkConnectionBroken cm) =
           (case reconnect_loop env 0 (InitialBackoff (config cm)) w
                   ((MarkConnectionBroken cm)\<lparr>connecting := True\<rparr>) of
              None \<Rightarrow> None
            | Some (r, w', cm') \<Rightarrow> Some (r, w', cm'\<lparr>connecting := False\<rparr>))"
    if "\<not> connecting cm"
    using that by (simp add: m GetClients_slow)
next
  assume "clients cm = None"
  then show "MarkConnectionBroken cm = cm"
    by (simp add: MarkConnectionBroken_def)
qed

theorem MarkConnectionBroken_forces_reconnect_witness:
  "clients connected_manager = Some 0 \<and> 0 < allocs connected_world \<and>
   disconnected (MarkConnectionBroken connected_manager) \<and>
   GetClients accepting_env connected_world (MarkConnectionBroken connected_manager) \<noteq>
     Some ((Some 0, None),
           \<lparr>dials = 2, timers = [], allocs = 2, rpcs = 0, marks = 0\<rparr>,
           test_manager\<lparr>conn := Some 1, rpcClient := Some 1, clients := Some 0\<rparr>) \<and>
   GetClients accepting_env connected_world (MarkConnectionBroken connected_manager) =
     Some ((Some 1, None),
           \<lparr>dials = 2, timers = [], allocs = 2, rpcs = 0, marks = 0\<rparr>,
           test_manager\<lparr>conn := Some 1, rpcClient := Some 1, clients := Some 1\<rparr>) \<and>
   clients test_manager = None \<and>
   MarkConnectionBroken test_manager = test_manager"
proof -
  have a: "clients connected_manager = Some 0" "0 < allocs connected_world"
    by (simp_all add: connected_manager_eval)
  have b: "clients test_manager = None"
    by (simp add: test_manager_def NewConnectionManager_def)
  have c: "GetClients accepting_env connected_world (MarkConnectionBroken connected_manager) =
     Some ((Some 1, None),
           \<lparr>dials = 2, timers = [], allocs = 2, rpcs = 0, marks = 0\<rparr>,
           test_manager\<lparr>conn := Some 1, rpcClient := Some 1, clients := Some 1\<rparr>)"
    by (simp add: connected_manager_eval MarkConnectionBroken_def eval_defs
        test_manager_def test_config_def)
  show ?thesis
    using a b c
      MarkConnectionBroken_forces_reconnect [of connected_manager 0 connected_world accepting_env]
      MarkConnectionBroken_forces_reconnect [of test_manager 0 new_world accepting_env]
    by simp
qed

section \<open>The wrappers\<close>

lemma GetClients_counters:
  assumes "GetClients env w cm = Some (r, w', cm')"
  shows "rpcs w' = rpcs w \<and> marks w' = marks w"
proof (cases "clients cm = None \<and> \<not> connecting cm")
  case False
  from GetClients_fast [OF this, of env w] assms show ?thesis by auto
next
  case True
  from True assms obtain cm1 where
    run: "reconnect_loop env 0 (InitialBackoff (config cm)) w (cm\<lparr>connecting := True\<rparr>) =
            Some (r, w', cm1)"
    by (auto simp: GetClients_slow split: option.splits)
  from loop_props [OF run] show ?thesis by simp
qed

text \<open>
  C1. For every underlying method \<open>call\<close>: if its first invocation fails with a connection
  error and the invocation of the retry fails with a connection error again, the wrapper
  returns the second error as it is; it has then invoked the method twice and
  \<open>MarkConnectionBroken\<close> once.
\<close>

theorem resilient_call_second_connection_failure:
  assumes g0: "GetClients env w cm = Some ((Some b0, None), w0, cm0)"
    and c0: "call (rpcs w0) b0 = Inl e1"
    and k0: "isConnectionError (Some e1)"
    and g1: "GetClients env (w0\<lparr>rpcs := Suc (rpcs w0), marks := Suc (marks w0)\<rparr>)
               (MarkConnectionBroken cm0) = Some ((Some b1, None), w1, cm1)"
    and c1: "call (rpcs w1) b1 = Inl e2"
    and k1: "isConnectionError (Some e2)"
  shows "resilient_call call env w cm = Some (Failure e2, w1\<lparr>rpcs := Suc (rpcs w1)\<rparr>, cm1) \<and>
         rpcs (w1\<lparr>rpcs := Suc (rpcs w1)\<rparr>) = rpcs w + 2 \<and>
         marks (w1\<lparr>rpcs := Suc (rpcs w1)\<rparr>) = marks w + 1"
proof -
  have second: "resilient_loop call env 1 (w0\<lparr>rpcs := Suc (rpcs w0), marks := Suc (marks w0)\<rparr>)
                  (MarkConnectionBroken cm0) = Some (Failure e2, w1\<lparr>rpcs := Suc (rpcs w1)\<rparr>, cm1)"
    by (subst resilient_loop.simps) (simp add: g1 c1)
  have first: "resilient_loop call env 0 w cm =
                 resilient_loop call env 1 (w0\<lparr>rpcs := Suc (rpcs w0), marks := Suc (marks w0)\<rparr>)
                  (MarkConnectionBroken cm0)"
    by (subst resilient_loop.simps) (simp add: g0 c0 k0)
  have n0: "rpcs w0 = rpcs w" "marks w0 = marks w"
    using GetClients_counters [OF g0] by simp_all
  have n1: "rpcs w1 = Suc (rpcs w0)" "marks w1 = Suc (marks w0)"
    using GetClients_counters [OF g1] by simp_all
  show ?thesis
    unfolding resilient_call_def first second by (simp add: n0 n1)
qed

theorem resilient_call_second_connection_failure_witness:
  "isConnectionError (Some (errors_New ''EOF'')) \<and>
   isConnectionError (Some (errors_New ''broken pipe'')) \<and>
   resilient_call flaky_call accepting_env connected_world connected_manager =
     Some (Failure (errors_New ''broken pipe''),
           \<lparr>dials = 2, timers = [], allocs = 2, rpcs = 2, marks = 1\<rparr>,
           test_manager\<lparr>conn := Some 1, rpcClient := Some 1, clients := Some 1\<rparr>)"
proof -
  have k0: "isConnectionError (Some (errors_New ''EOF''))"
    by (simp add: isConnectionError_def errors_New_def connectionErrorPatterns_def ends_with_def)
  have k1: "isConnectionError (Some (errors_New ''broken pipe''))"
    by (simp add: isConnectionError_def errors_New_def connectionErrorPatterns_def ends_with_def)
  have g0: "GetClients accepting_env connected_world connected_manager =
              Some ((Some 0, None), connected_world, connected_manager)"
    by (simp add: GetClients_def connected_manager_eval)
  have c0: "flaky_call (rpcs connected_world) 0 = Inl (errors_New ''EOF'')"
    by (simp add: flaky_call_def connected_manager_eval)
  have g1: "GetClients accepting_env
              (connected_world\<lparr>rpcs := Suc (rpcs connected_world), marks := Suc (marks connected_world)\<rparr>)
              (MarkConnectionBroken connected_manager) =
              Some ((Some 1, None),
                    \<lparr>dials = 2, timers = [], allocs = 2, rpcs = 1, marks = 1\<rparr>,
                    test_manager\<lparr>conn := Some 1, rpcClient := Some 1, clients := Some 1\<rparr>)"
    by (simp add: connected_manager_eval MarkConnectionBroken_def eval_defs
        test_manager_def test_config_def)
  have c1: "flaky_call (rpcs \<lparr>dials = 2, timers = [], allocs = 2, rpcs = 1, marks = 1\<rparr>) 1 =
              Inl (errors_New ''broken pipe'')"
    by (simp add: flaky_call_def)
  show ?thesis
    using resilient_call_second_connection_failure [where call = flaky_call, OF g0 c0 k0 g1 c1 k1] k0 k1
    by simp
qed

text \<open>
  C3. For every underlying method \<open>call\<close>: if its first invocation fails with an error
  that the classifier does not judge a connection error, the wrapper returns that error;
  it has then invoked the method once and \<open>MarkConnectionBroken\<close> not at all, and the
  manager is as \<open>GetClients\<close> left it.
\<close>

theorem resilient_call_application_error:
  assumes g0: "GetClients env w cm = Some ((Some b0, None), w0, cm0)"
    and c0: "call (rpcs w0) b0 = Inl e"
    and k0: "\<not> isConnectionError (Some e)"
  shows "resilient_call call env w cm = Some (Failure e, w0\<lparr>rpcs := Suc (rpcs w0)\<rparr>, cm0) \<and>
         rpcs (w0\<lparr>rpcs := Suc (rpcs w0)\<rparr>) = rpcs w + 1 \<and>
         marks (w0\<lparr>rpcs := Suc (rpcs w0)\<rparr>) = marks w"
proof -
  have first: "resilient_loop call env 0 w cm = Some (Failure e, w0\<lparr>rpcs := Suc (rpcs w0)\<rparr>, cm0)"
    by (subst resilient_loop.simps) (simp add: g0 c0 k0)
  have n0: "rpcs w0 = rpcs w" "marks w0 = marks w"
    using GetClients_counters [OF g0] by simp_all
  show ?thesis
    unfolding resilient_call_def first by (simp add: n0)
qed

theorem resilient_call_application_error_witness:
  "\<not> isConnectionError (Some (errors_New ''some other error'')) \<and>
   resilient_call rejecting_call accepting_env connected_world connected_manager =
     Some (Failure (errors_New ''some other error''),
           \<lparr>dials = 1, timers = [], allocs = 1, rpcs = 1, marks = 0\<rparr>,
           connected_manager) \<and>
   clients connected_manager = Some 0"
proof -
  have k0: "\<not> isConnectionError (Some (errors_New ''some other error''))"
    by (simp add: isConnectionError_def errors_New_def connectionErrorPatterns_def ends_with_def)
  have g0: "GetClients accepting_env connected_world connected_manager =
              Some ((Some 0, None), connected_world, connected_manager)"
    by (simp add: GetClients_def connected_manager_eval)
  have c0: "rejecting_call (rpcs connected_world) 0 = Inl (errors_New ''some other error'')"
    by (simp add: rejecting_call_def)
  show ?thesis
    using resilient_call_application_error [where call = rejecting_call, OF g0 c0 k0] k0
    by (simp add: connected_manager_eval)
qed

end
